theory Spec2Isabelle
  imports Complex_Main "HOL-Library.Word" "HOL-Library.Multiset"
begin

unbundle bit_operations_syntax

section \<open>Self-service database provisioning: the request lifecycle\<close>

text \<open>
  The service of \<^verbatim>\<open>src/provisioning_api.py\<close> keeps two tables in a PostgreSQL
  database and drives them through one connection opened with
  \<^verbatim>\<open>autocommit = True\<close>: every \<^verbatim>\<open>cursor.execute\<close> is a transaction of its own,
  committed as soon as it returns. The model is explicit state passing over the two
  tables. An operation returns the store it leaves behind together with its result,
  also when it raises: what the statements before the raise wrote stays written.
\<close>

subsection \<open>Rows, requests and results\<close>

type_synonym timestamp = nat

text \<open>A row of table \<^verbatim>\<open>db_requests\<close>. The nullable columns that the program leaves
  unset at insertion are options; \<^verbatim>\<open>created_at\<close> is filled by its column default
  at every insertion.\<close>

record request_row =
  row_request_id :: string
  row_team_name :: string
  row_db_type :: string
  row_environment :: string
  row_size :: string
  row_purpose :: string
  row_status :: string
  row_created_at :: timestamp
  row_approved_at :: "timestamp option"
  row_provisioned_at :: "timestamp option"
  row_approver :: "string option"
  row_approval_notes :: "string option"

text \<open>A row of table \<^verbatim>\<open>provisioned_databases\<close>.\<close>

record database_row =
  pd_db_id :: nat
  pd_request_id :: string
  pd_db_name :: string
  pd_db_type :: string
  pd_environment :: string
  pd_host :: string
  pd_port :: int
  pd_estimated_cost :: rat
  pd_status :: string
  pd_created_at :: timestamp

text \<open>The two tables in insertion order, and the sequence behind the
  \<^verbatim>\<open>SERIAL\<close> column \<^verbatim>\<open>db_id\<close>.\<close>

record store =
  db_requests :: "request_row list"
  provisioned_databases :: "database_row list"
  db_id_seq :: nat

text \<open>The request bodies \<^verbatim>\<open>DatabaseRequest\<close> and \<^verbatim>\<open>ApprovalAction\<close>.\<close>

record database_request =
  team_name :: string
  db_type :: string
  environment :: string
  size_str :: string
  purpose :: string

record approval_action =
  request_id :: string
  action :: string
  approver :: string
  notes_opt :: "string option"

text \<open>The dictionary that \<^verbatim>\<open>create_request\<close> and \<^verbatim>\<open>process_approval\<close> return, and
  the one \<^verbatim>\<open>get_requests\<close> builds for each row it fetched.\<close>

record response =
  res_request_id :: string
  res_status :: string
  res_message :: string

record request_summary =
  sum_request_id :: string
  sum_team_name :: string
  sum_db_type :: string
  sum_environment :: string
  sum_size :: string
  sum_status :: string
  sum_created_at :: timestamp
  sum_purpose :: string

text \<open>What an operation can raise: the two \<^verbatim>\<open>HTTPException\<close>s of
  \<^verbatim>\<open>process_approval\<close> with their status code and detail, the exception of a
  statement that the database refuses or never receives (lost connection, violated
  constraint), and the unpacking of \<^verbatim>\<open>None\<close> in \<^verbatim>\<open>_provision_database\<close>.\<close>

datatype error = HTTPException nat string | StorageError | TypeError

subsection \<open>The environment of a call\<close>

text \<open>
  Three things come from outside the program. No operation has a loop around a
  statement, so a call executes each of its statements at most once: which one raises
  is a predicate on the statements, and the value of \<^verbatim>\<open>NOW()\<close> in each is a function
  of the statement. The third is \<^verbatim>\<open>uuid.uuid4()\<close>, a 128-bit number.
\<close>

datatype statement =
    Select_status | Update_decision | Select_details | Insert_database | Update_provisioned
  | Insert_request | Select_requests

type_synonym faults = "statement \<Rightarrow> bool"
type_synonym clock = "statement \<Rightarrow> timestamp"
type_synonym uuid = "128 word"

abbreviation no_fault :: faults where
  "no_fault \<equiv> (\<lambda>st. False)"

definition hex_digits :: string where
  "hex_digits = ''0123456789abcdef''"

definition hex_digit :: "nat \<Rightarrow> char" where
  "hex_digit n = hex_digits ! (n mod 16)"

text \<open>\<^verbatim>\<open>UUID.hex\<close>: the number as 32 hexadecimal digits, most significant first.\<close>

definition uuid_hex :: "uuid \<Rightarrow> string" where
  "uuid_hex u = map (\<lambda>i. hex_digit (unat (drop_bit (4 * (31 - i)) u AND 15))) [0..<32]"

text \<open>\<^verbatim>\<open>str(UUID)\<close>: the same digits in groups of 8, 4, 4, 4 and 12.\<close>

definition uuid_str :: "uuid \<Rightarrow> string" where
  "uuid_str u =
     (let h = uuid_hex u
      in take 8 h @ ''-'' @ take 4 (drop 8 h) @ ''-'' @ take 4 (drop 12 h) @ ''-'' @
         take 4 (drop 16 h) @ ''-'' @ drop 20 h)"

subsection \<open>The statements\<close>

text \<open>\<^verbatim>\<open>SELECT status FROM db_requests WHERE request_id = %s\<close> followed by
  \<^verbatim>\<open>fetchone()\<close>: the first matching row, if there is one.\<close>

definition select_status :: "string \<Rightarrow> store \<Rightarrow> string option" where
  "select_status rid s =
     map_option row_status (find (\<lambda>r. row_request_id r = rid) (db_requests s))"

text \<open>The \<^verbatim>\<open>UPDATE\<close> of \<^verbatim>\<open>process_approval\<close>: every row with the identifier gets
  the status, the approver, the notes and \<^verbatim>\<open>approved_at = NOW()\<close>.\<close>

definition update_decision ::
  "string \<Rightarrow> string \<Rightarrow> string option \<Rightarrow> timestamp \<Rightarrow> string \<Rightarrow> store \<Rightarrow> store" where
  "update_decision new_status appr nts now rid s =
     s\<lparr>db_requests :=
         map (\<lambda>r. if row_request_id r = rid
                  then r\<lparr>row_status := new_status, row_approver := Some appr,
                         row_approval_notes := nts, row_approved_at := Some now\<rparr>
                  else r)
             (db_requests s)\<rparr>"

text \<open>\<^verbatim>\<open>SELECT team_name, db_type, environment, size\<close> of \<^verbatim>\<open>_provision_database\<close>.\<close>

definition select_details :: "string \<Rightarrow> store \<Rightarrow> (string \<times> string \<times> string \<times> string) option" where
  "select_details rid s =
     map_option (\<lambda>r. (row_team_name r, row_db_type r, row_environment r, row_size r))
       (find (\<lambda>r. row_request_id r = rid) (db_requests s))"

text \<open>\<^verbatim>\<open>INSERT INTO provisioned_databases\<close>: the row is appended, \<^verbatim>\<open>db_id\<close> is the
  next value of the sequence and \<^verbatim>\<open>created_at\<close> is \<^verbatim>\<open>NOW()\<close>.\<close>

definition insert_database ::
  "string \<Rightarrow> string \<Rightarrow> string \<Rightarrow> string \<Rightarrow> string \<Rightarrow> int \<Rightarrow> rat \<Rightarrow> timestamp \<Rightarrow> store \<Rightarrow> store" where
  "insert_database rid name dbt env host port cost now s =
     s\<lparr>provisioned_databases := provisioned_databases s @
          [\<lparr>pd_db_id = Suc (db_id_seq s), pd_request_id = rid, pd_db_name = name,
            pd_db_type = dbt, pd_environment = env, pd_host = host, pd_port = port,
            pd_estimated_cost = cost, pd_status = ''active'', pd_created_at = now\<rparr>],
       db_id_seq := Suc (db_id_seq s)\<rparr>"

text \<open>The \<^verbatim>\<open>UPDATE\<close> of \<^verbatim>\<open>_provision_database\<close>.\<close>

definition update_provisioned :: "timestamp \<Rightarrow> string \<Rightarrow> store \<Rightarrow> store" where
  "update_provisioned now rid s =
     s\<lparr>db_requests :=
         map (\<lambda>r. if row_request_id r = rid
                  then r\<lparr>row_status := ''provisioned'', row_provisioned_at := Some now\<rparr>
                  else r)
             (db_requests s)\<rparr>"

text \<open>\<^verbatim>\<open>INSERT INTO db_requests\<close> of \<^verbatim>\<open>create_request\<close>; \<^verbatim>\<open>created_at\<close> takes its
  default \<^verbatim>\<open>NOW()\<close>, the other columns not listed stay \<^verbatim>\<open>NULL\<close>.\<close>

definition insert_request :: "string \<Rightarrow> database_request \<Rightarrow> timestamp \<Rightarrow> store \<Rightarrow> store" where
  "insert_request rid req now s =
     s\<lparr>db_requests := db_requests s @
          [\<lparr>row_request_id = rid, row_team_name = team_name req, row_db_type = db_type req,
            row_environment = environment req, row_size = size_str req,
            row_purpose = purpose req, row_status = ''pending'', row_created_at = now,
            row_approved_at = None, row_provisioned_at = None, row_approver = None,
            row_approval_notes = None\<rparr>]\<rparr>"

subsection \<open>The cost and port tables\<close>

text \<open>The two dictionaries of \<^verbatim>\<open>_provision_database\<close> and \<^verbatim>\<open>dict.get\<close> with a
  default.\<close>

definition cost_map :: "string \<rightharpoonup> rat" where
  "cost_map = map_of [(''small'', 50), (''medium'', 150), (''large'', 500)]"

definition port_map :: "string \<rightharpoonup> int" where
  "port_map = map_of [(''postgres'', 5432), (''mysql'', 3306), (''redis'', 6379)]"

definition dict_get :: "('k \<rightharpoonup> 'v) \<Rightarrow> 'k \<Rightarrow> 'v \<Rightarrow> 'v" where
  "dict_get m k d = (case m k of None \<Rightarrow> d | Some v \<Rightarrow> v)"

definition estimated_cost :: "string \<Rightarrow> rat" where
  "estimated_cost sz = dict_get cost_map sz 100"

definition port :: "string \<Rightarrow> int" where
  "port dbt = dict_get port_map dbt 5432"

subsection \<open>The operations\<close>

text \<open>\<^verbatim>\<open>_provision_database\<close>: the details are read back, the database record is
  inserted, the request is marked.\<close>

definition provision_database ::
  "faults \<Rightarrow> clock \<Rightarrow> uuid \<Rightarrow> string \<Rightarrow> store \<Rightarrow> store \<times> (error + unit)" where
  "provision_database flt clk u rid s =
     (if flt Select_details then (s, Inl StorageError)
      else case select_details rid s of
        None \<Rightarrow> (s, Inl TypeError)
      | Some (team, dbt, env, sz) \<Rightarrow>
          let db_name = team @ ''_'' @ env @ ''_'' @ dbt @ ''_'' @ take 8 (uuid_hex u)
          in if flt Insert_database then (s, Inl StorageError)
             else let s1 = insert_database rid db_name dbt env ''db-cluster.example.com''
                             (port dbt) (estimated_cost sz) (clk Insert_database) s
                  in if flt Update_provisioned then (s1, Inl StorageError)
                     else (update_provisioned (clk Update_provisioned) rid s1, Inr ()))"

text \<open>\<^verbatim>\<open>process_approval\<close>. The dictionary it returns is built from \<^verbatim>\<open>new_status\<close>,
  the value computed before provisioning.\<close>

definition process_approval ::
  "faults \<Rightarrow> clock \<Rightarrow> uuid \<Rightarrow> approval_action \<Rightarrow> store \<Rightarrow> store \<times> (error + response)" where
  "process_approval flt clk u approval s =
     (if flt Select_status then (s, Inl StorageError)
      else case select_status (request_id approval) s of
        None \<Rightarrow> (s, Inl (HTTPException 404 ''Request not found''))
      | Some st \<Rightarrow>
          if st \<noteq> ''pending'' then (s, Inl (HTTPException 400 (''Request already '' @ st)))
          else
            let new_status = (if action approval = ''approve'' then ''approved'' else ''rejected'')
            in if flt Update_decision then (s, Inl StorageError)
               else
                 let s1 = update_decision new_status (approver approval) (notes_opt approval)
                            (clk Update_decision) (request_id approval) s;
                     res = \<lparr>res_request_id = request_id approval, res_status = new_status,
                            res_message = ''Request '' @ new_status @ '' successfully''\<rparr>
                 in if action approval = ''approve''
                    then (case provision_database flt clk u (request_id approval) s1 of
                            (s2, Inl e) \<Rightarrow> (s2, Inl e)
                          | (s2, Inr _) \<Rightarrow> (s2, Inr res))
                    else (s1, Inr res))"

text \<open>\<^verbatim>\<open>create_request\<close>: the identifier is \<^verbatim>\<open>str(uuid.uuid4())\<close>. Column
  \<^verbatim>\<open>request_id\<close> is the \<^verbatim>\<open>PRIMARY KEY\<close> of the table, so the \<^verbatim>\<open>INSERT\<close> also
  raises when the identifier is already there.\<close>

definition create_request ::
  "faults \<Rightarrow> clock \<Rightarrow> uuid \<Rightarrow> database_request \<Rightarrow> store \<Rightarrow> store \<times> (error + response)" where
  "create_request flt clk u req s =
     (let rid = uuid_str u
      in if flt Insert_request \<or> rid \<in> set (map row_request_id (db_requests s))
         then (s, Inl StorageError)
         else (insert_request rid req (clk Insert_request) s,
               Inr \<lparr>res_request_id = rid, res_status = ''pending'',
                    res_message = ''Request submitted for approval''\<rparr>))"

text \<open>\<^verbatim>\<open>ORDER BY created_at DESC\<close>: a stable sort on the negated timestamp, so rows
  created at the same instant stay in table order.\<close>

definition order_by_created_at_desc :: "request_row list \<Rightarrow> request_row list" where
  "order_by_created_at_desc rows = sort_key (\<lambda>r. - int (row_created_at r)) rows"

definition summary :: "request_row \<Rightarrow> request_summary" where
  "summary r =
     \<lparr>sum_request_id = row_request_id r, sum_team_name = row_team_name r,
      sum_db_type = row_db_type r, sum_environment = row_environment r,
      sum_size = row_size r, sum_status = row_status r,
      sum_created_at = row_created_at r, sum_purpose = row_purpose r\<rparr>"

text \<open>\<^verbatim>\<open>get_requests\<close>. The test \<^verbatim>\<open>if status:\<close> is Python truthiness: \<^verbatim>\<open>None\<close> and
  the empty string both take the branch without \<^verbatim>\<open>WHERE\<close>, which has
  \<^verbatim>\<open>LIMIT 50\<close>.\<close>

definition get_requests ::
  "faults \<Rightarrow> string option \<Rightarrow> store \<Rightarrow> store \<times> (error + request_summary list)" where
  "get_requests flt status s =
     (if status \<noteq> None \<and> status \<noteq> Some []
      then if flt Select_requests then (s, Inl StorageError)
           else (s, Inr (map summary (order_by_created_at_desc
                   (filter (\<lambda>r. Some (row_status r) = status) (db_requests s)))))
      else if flt Select_requests then (s, Inl StorageError)
           else (s, Inr (map summary (take 50 (order_by_created_at_desc (db_requests s))))))"

subsection \<open>Decisions that run at the same time\<close>

text \<open>
  The web framework serves every request on a thread of its own, and all of them call
  the one \<^verbatim>\<open>service\<close> with its one connection, each through a cursor of its own.
  The database executes one statement at a time and commits it, so what calls that run
  at the same time do to the store is an interleaving of their statements. Between two
  statements a call holds nothing but its place in \<^verbatim>\<open>process_approval\<close> and the row
  it has fetched.
\<close>

datatype call_state =
    At_select_status
  | At_update_decision
  | At_select_details
  | At_insert_database string string string string
  | At_update_provisioned
  | Returned "error + response"

text \<open>The next statement of a call: each equation is the code of \<^verbatim>\<open>process_approval\<close>
  or \<^verbatim>\<open>_provision_database\<close> from one \<^verbatim>\<open>cursor.execute\<close> to the next.\<close>

fun step ::
  "faults \<Rightarrow> clock \<Rightarrow> uuid \<Rightarrow> approval_action \<Rightarrow> call_state \<Rightarrow> store \<Rightarrow> call_state \<times> store" where
  "step flt clk u approval At_select_status s =
     (if flt Select_status then (Returned (Inl StorageError), s)
      else case select_status (request_id approval) s of
        None \<Rightarrow> (Returned (Inl (HTTPException 404 ''Request not found'')), s)
      | Some st \<Rightarrow>
          if st \<noteq> ''pending''
          then (Returned (Inl (HTTPException 400 (''Request already '' @ st))), s)
          else (At_update_decision, s))"
| "step flt clk u approval At_update_decision s =
     (let new_status = (if action approval = ''approve'' then ''approved'' else ''rejected'')
      in if flt Update_decision then (Returned (Inl StorageError), s)
         else
           let s1 = update_decision new_status (approver approval) (notes_opt approval)
                      (clk Update_decision) (request_id approval) s;
               res = \<lparr>res_request_id = request_id approval, res_status = new_status,
                      res_message = ''Request '' @ new_status @ '' successfully''\<rparr>
           in if action approval = ''approve'' then (At_select_details, s1)
              else (Returned (Inr res), s1))"
| "step flt clk u approval At_select_details s =
     (if flt Select_details then (Returned (Inl StorageError), s)
      else case select_details (request_id approval) s of
        None \<Rightarrow> (Returned (Inl TypeError), s)
      | Some (team, dbt, env, sz) \<Rightarrow> (At_insert_database team dbt env sz, s))"
| "step flt clk u approval (At_insert_database team dbt env sz) s =
     (let db_name = team @ ''_'' @ env @ ''_'' @ dbt @ ''_'' @ take 8 (uuid_hex u)
      in if flt Insert_database then (Returned (Inl StorageError), s)
         else (At_update_provisioned,
               insert_database (request_id approval) db_name dbt env
                 ''db-cluster.example.com'' (port dbt) (estimated_cost sz)
                 (clk Insert_database) s))"
| "step flt clk u approval At_update_provisioned s =
     (let new_status = (if action approval = ''approve'' then ''approved'' else ''rejected'')
      in if flt Update_provisioned then (Returned (Inl StorageError), s)
         else (Returned (Inr \<lparr>res_request_id = request_id approval, res_status = new_status,
                             res_message = ''Request '' @ new_status @ '' successfully''\<rparr>),
               update_provisioned (clk Update_provisioned) (request_id approval) s))"
| "step flt clk u approval (Returned r) s = (Returned r, s)"

text \<open>A call is its clock, its \<^verbatim>\<open>uuid4\<close> and its request body. A schedule names, step
  by step, the call that executes its next statement.\<close>

type_synonym call = "clock \<times> uuid \<times> approval_action"

fun interleave ::
  "faults \<Rightarrow> call list \<Rightarrow> nat list \<Rightarrow> call_state list \<times> store \<Rightarrow> call_state list \<times> store" where
  "interleave flt calls [] cfg = cfg"
| "interleave flt calls (i # schedule) (states, s) =
     (if i < length calls \<and> i < length states
      then case calls ! i of (clk, u, approval) \<Rightarrow>
             (case step flt clk u approval (states ! i) s of
                (st, s1) \<Rightarrow> interleave flt calls schedule (states[i := st], s1))
      else interleave flt calls schedule (states, s))"


text \<open>The calls executed one after the other, each on the store the one before left.\<close>

fun decide_in_turn :: "call list \<Rightarrow> store \<Rightarrow> (error + response) list \<times> store" where
  "decide_in_turn [] s = ([], s)"
| "decide_in_turn ((clk, u, approval) # calls) s =
     (case process_approval no_fault clk u approval s of
        (s1, r) \<Rightarrow> (case decide_in_turn calls s1 of (rs, s2) \<Rightarrow> (r # rs, s2)))"

subsection \<open>Invariants of the store\<close>

text \<open>The invariant of a request: its status is one of the four, \<^verbatim>\<open>approved_at\<close> is
  set exactly in the three decided states and \<^verbatim>\<open>provisioned_at\<close> exactly in state
  \<^verbatim>\<open>provisioned\<close>.\<close>

definition request_inv :: "request_row \<Rightarrow> bool" where
  "request_inv r \<longleftrightarrow>
     row_status r \<in> set [''pending'', ''approved'', ''rejected'', ''provisioned''] \<and>
     ((row_approved_at r \<noteq> None) =
        (row_status r \<in> set [''approved'', ''rejected'', ''provisioned''])) \<and>
     ((row_provisioned_at r \<noteq> None) = (row_status r = ''provisioned''))"

definition store_inv :: "store \<Rightarrow> bool" where
  "store_inv s = list_all request_inv (db_requests s)"

text \<open>The \<^verbatim>\<open>PRIMARY KEY\<close> of \<^verbatim>\<open>db_requests\<close>: no identifier occurs twice.\<close>

definition primary_key :: "store \<Rightarrow> bool" where
  "primary_key s = distinct (map row_request_id (db_requests s))"


subsection \<open>A run of the demo client\<close>

text \<open>The first request of \<^verbatim>\<open>demo_client.py\<close>, submitted to the empty store, and the
  approval and the rejection the client sends for it.\<close>

definition empty_store :: store where
  "empty_store = \<lparr>db_requests = [], provisioned_databases = [], db_id_seq = 0\<rparr>"

definition demo_request :: database_request where
  "demo_request =
     \<lparr>team_name = ''data-engineering'', db_type = ''postgres'', environment = ''prod'',
      size_str = ''large'', purpose = ''Analytics warehouse''\<rparr>"

definition demo_uuid :: uuid where
  "demo_uuid = 0x2f1c9e4a7b3d4c5e8a1f0b2c3d4e5f60"

definition demo_id :: string where
  "demo_id = ''2f1c9e4a-7b3d-4c5e-8a1f-0b2c3d4e5f60''"

definition demo_store :: store where
  "demo_store = fst (create_request no_fault (\<lambda>st. 1) demo_uuid demo_request empty_store)"

definition demo_approve :: approval_action where
  "demo_approve =
     \<lparr>request_id = demo_id, action = ''approve'', approver = ''john.doe@company.com'',
      notes_opt = Some ''Approved - meets requirements''\<rparr>"

definition demo_reject :: approval_action where
  "demo_reject =
     \<lparr>request_id = demo_id, action = ''reject'', approver = ''jane.smith@company.com'',
      notes_opt = Some ''Insufficient justification''\<rparr>"

text \<open>The second request of the client, submitted after the first has been approved.\<close>

definition demo_request2 :: database_request where
  "demo_request2 =
     \<lparr>team_name = ''backend-team'', db_type = ''mysql'', environment = ''dev'',
      size_str = ''small'', purpose = ''Development testing''\<rparr>"

definition demo_uuid2 :: uuid where
  "demo_uuid2 = 0x9b2d6f3c1a4e4b7d8c5f7e6d5c4b3a29"

definition demo_store2 :: store where
  "demo_store2 =
     fst (create_request no_fault (\<lambda>st. 5) demo_uuid2 demo_request2
            (fst (process_approval no_fault (\<lambda>st. 2) demo_uuid demo_approve demo_store)))"


section \<open>Properties\<close>

subsection \<open>What the statements leave behind\<close>

lemma find_id_map:
  assumes "\<And>r. row_request_id (f r) = row_request_id r"
  shows "find (\<lambda>r. row_request_id r = x) (map f rows) =
         map_option f (find (\<lambda>r. row_request_id r = x) rows)"
  using assms by (induction rows) auto

lemma find_id_Some:
  "find (\<lambda>r. row_request_id r = x) rows = Some r \<Longrightarrow> row_request_id r = x \<and> r \<in> set rows"
  by (induction rows) (auto split: if_splits)

lemma select_status_update_decision:
  "select_status x (update_decision ns ap nt now rid s) =
     (if x = rid then map_option (\<lambda>_. ns) (select_status rid s) else select_status x s)"
proof (cases "find (\<lambda>r. row_request_id r = x) (db_requests s)")
  case None
  then show ?thesis
    by (auto simp: select_status_def update_decision_def find_id_map)
next
  case (Some r)
  then show ?thesis
    using find_id_Some [OF Some]
    by (auto simp: select_status_def update_decision_def find_id_map)
qed

lemma select_status_update_provisioned:
  "select_status x (update_provisioned now rid s) =
     (if x = rid then map_option (\<lambda>_. ''provisioned'') (select_status rid s)
      else select_status x s)"
proof (cases "find (\<lambda>r. row_request_id r = x) (db_requests s)")
  case None
  then show ?thesis
    by (auto simp: select_status_def update_provisioned_def find_id_map)
next
  case (Some r)
  then show ?thesis
    using find_id_Some [OF Some]
    by (auto simp: select_status_def update_provisioned_def find_id_map)
qed

lemma select_status_insert_database [simp]:
  "select_status x (insert_database rid name dbt env host prt cost now s) = select_status x s"
  by (simp add: select_status_def insert_database_def)

lemma select_details_update_decision [simp]:
  "select_details x (update_decision ns ap nt now rid s) = select_details x s"
  by (cases "find (\<lambda>r. row_request_id r = x) (db_requests s)")
     (simp_all add: select_details_def update_decision_def find_id_map)


lemma select_status_None_iff:
  "select_status x s = None \<longleftrightarrow> x \<notin> row_request_id ` set (db_requests s)"
  by (auto simp: select_status_def find_None_iff)

lemma process_approval_reject:
  assumes "select_status (request_id a) s = Some ''pending''" and "action a \<noteq> ''approve''"
  shows "process_approval no_fault clk u a s =
           (update_decision ''rejected'' (approver a) (notes_opt a) (clk Update_decision) (request_id a) s,
            Inr \<lparr>res_request_id = request_id a, res_status = ''rejected'',
                 res_message = ''Request rejected successfully''\<rparr>)"
  using assms by (simp add: process_approval_def Let_def)

lemma provision_database_ok:
  assumes "select_details rid s = Some (team, dbt, env, sz)"
  shows "provision_database no_fault clk u rid s =
           (update_provisioned (clk Update_provisioned) rid
              (insert_database rid (team @ ''_'' @ env @ ''_'' @ dbt @ ''_'' @ take 8 (uuid_hex u))
                 dbt env ''db-cluster.example.com'' (port dbt) (estimated_cost sz) (clk Insert_database) s),
            Inr ())"
  using assms by (simp add: provision_database_def)

lemma process_approval_approve:
  assumes "select_status (request_id a) s = Some ''pending''" and "action a = ''approve''"
    and "select_details (request_id a) s = Some (team, dbt, env, sz)"
  shows "process_approval no_fault clk u a s =
           (update_provisioned (clk Update_provisioned) (request_id a)
              (insert_database (request_id a)
                 (team @ ''_'' @ env @ ''_'' @ dbt @ ''_'' @ take 8 (uuid_hex u))
                 dbt env ''db-cluster.example.com'' (port dbt) (estimated_cost sz) (clk Insert_database)
                 (update_decision ''approved'' (approver a) (notes_opt a) (clk Update_decision)
                    (request_id a) s)),
            Inr \<lparr>res_request_id = request_id a, res_status = ''approved'',
                 res_message = ''Request approved successfully''\<rparr>)"
  using assms by (simp add: process_approval_def provision_database_ok Let_def)

lemma demo_store_eval:
  "demo_store =
     \<lparr>db_requests =
        [\<lparr>row_request_id = demo_id, row_team_name = ''data-engineering'',
          row_db_type = ''postgres'', row_environment = ''prod'', row_size = ''large'',
          row_purpose = ''Analytics warehouse'', row_status = ''pending'', row_created_at = 1,
          row_approved_at = None, row_provisioned_at = None, row_approver = None,
          row_approval_notes = None\<rparr>],
      provisioned_databases = [], db_id_seq = 0\<rparr>"
  by code_simp

lemma db_requests_insert_database [simp]:
  "db_requests (insert_database rid name dbt env host prt cost now s) = db_requests s"
  by (simp add: insert_database_def)

lemma provisioned_databases_update_decision [simp]:
  "provisioned_databases (update_decision ns ap nt now rid s) = provisioned_databases s"
  by (simp add: update_decision_def)

lemma provisioned_databases_update_provisioned [simp]:
  "provisioned_databases (update_provisioned now rid s) = provisioned_databases s"
  by (simp add: update_provisioned_def)

lemma db_id_seq_update_decision [simp]:
  "db_id_seq (update_decision ns ap nt now rid s) = db_id_seq s"
  by (simp add: update_decision_def)


lemma rows_update_provisioned:
  assumes "r \<in> set (db_requests (update_provisioned now rid s))"
    and "row_request_id r = rid"
  shows "row_status r = ''provisioned'' \<and> row_provisioned_at r = Some now"
proof -
  from assms(1) obtain r0 where r0: "r0 \<in> set (db_requests s)"
    and r: "r = (if row_request_id r0 = rid
                 then r0\<lparr>row_status := ''provisioned'', row_provisioned_at := Some now\<rparr>
                 else r0)"
    unfolding update_provisioned_def by fastforce
  show ?thesis
  proof (cases "row_request_id r0 = rid")
    case True
    with r show ?thesis by simp
  next
    case False
    with r assms(2) show ?thesis by simp
  qed
qed

lemma select_details_of_status:
  assumes "select_status rid s = Some st"
  obtains team dbt env sz where "select_details rid s = Some (team, dbt, env, sz)"
  using assms by (auto simp: select_status_def select_details_def)


lemma demo_pending: "select_status demo_id demo_store = Some ''pending''"
  by (simp add: demo_store_eval select_status_def)

lemma demo_details:
  "select_details demo_id demo_store =
     Some (''data-engineering'', ''postgres'', ''prod'', ''large'')"
  by (simp add: demo_store_eval select_details_def)

lemma approve_status:
  assumes "select_status (request_id a) s = Some ''pending''" and "action a = ''approve''"
  shows "select_status (request_id a) (fst (process_approval no_fault clk u a s)) =
           Some ''provisioned''"
proof -
  from assms(1) obtain team dbt env sz
    where d: "select_details (request_id a) s = Some (team, dbt, env, sz)"
    by (rule select_details_of_status)
  show ?thesis
    by (simp add: process_approval_approve [OF assms d] select_status_update_provisioned
          select_status_update_decision assms(1))
qed

lemma provision_database_success:
  assumes "provision_database flt clk u rid s = (s2, Inr x)"
  shows "select_status rid s2 = map_option (\<lambda>_. ''provisioned'') (select_status rid s)"
proof -
  from assms obtain name dbt env host prt cost
    where "s2 = update_provisioned (clk Update_provisioned) rid
                  (insert_database rid name dbt env host prt cost (clk Insert_database) s)"
    by (auto simp: provision_database_def Let_def split: if_splits option.splits)
  then show ?thesis
    by (simp add: select_status_update_provisioned)
qed

lemma process_approval_success:
  assumes "process_approval flt clk u a s = (s1, Inr res)"
  shows "select_status (request_id a) s = Some ''pending'' \<and>
         select_status (request_id a) s1 =
           Some (if action a = ''approve'' then ''provisioned'' else ''rejected'')"
proof -
  from assms have nf: "\<not> flt Select_status"
    by (auto simp: process_approval_def)
  with assms obtain st where st: "select_status (request_id a) s = Some st"
    by (cases "select_status (request_id a) s") (auto simp: process_approval_def)
  with assms nf have p: "st = ''pending''"
    by (auto simp: process_approval_def split: if_splits)
  with assms nf st have nd: "\<not> flt Update_decision"
    by (auto simp: process_approval_def Let_def split: if_splits)
  show ?thesis
  proof (cases "action a = ''approve''")
    case True
    let ?s' = "update_decision ''approved'' (approver a) (notes_opt a) (clk Update_decision)
                 (request_id a) s"
    from assms nf st p nd True obtain x
      where "provision_database flt clk u (request_id a) ?s' = (s1, Inr x)"
      by (auto simp: process_approval_def Let_def split: prod.splits sum.splits)
    from provision_database_success [OF this] show ?thesis
      using st p True by (simp add: select_status_update_decision)
  next
    case False
    with assms nf st p nd
    have "s1 = update_decision ''rejected'' (approver a) (notes_opt a) (clk Update_decision)
                 (request_id a) s"
      by (auto simp: process_approval_def Let_def)
    then show ?thesis
      using st p False by (simp add: select_status_update_decision)
  qed
qed

lemma process_approval_not_pending:
  assumes "select_status (request_id a) s = Some st" and "st \<noteq> ''pending''"
  shows "process_approval no_fault clk u a s =
           (s, Inl (HTTPException 400 (''Request already '' @ st)))"
  using assms by (simp add: process_approval_def)

lemma demo_ids:
  "request_id demo_approve = demo_id" "action demo_approve = ''approve''"
  "request_id demo_reject = demo_id" "action demo_reject = ''reject''"
  by (simp_all add: demo_approve_def demo_reject_def)

subsection \<open>Preservation of the invariants\<close>






lemma store_inv_insert_database [simp]:
  "store_inv (insert_database rid name dbt env host prt cost now s) = store_inv s"
  by (simp add: store_inv_def)






lemma primary_key_update_decision [simp]:
  "primary_key (update_decision ns ap nt now rid s) = primary_key s"
proof -
  have "map row_request_id (db_requests (update_decision ns ap nt now rid s)) =
        map row_request_id (db_requests s)"
    by (simp add: update_decision_def)
  then show ?thesis by (simp add: primary_key_def)
qed

lemma primary_key_update_provisioned [simp]:
  "primary_key (update_provisioned now rid s) = primary_key s"
proof -
  have "map row_request_id (db_requests (update_provisioned now rid s)) =
        map row_request_id (db_requests s)"
    by (simp add: update_provisioned_def)
  then show ?thesis by (simp add: primary_key_def)
qed

lemma primary_key_insert_database [simp]:
  "primary_key (insert_database rid name dbt env host prt cost now s) = primary_key s"
  by (simp add: primary_key_def)













subsection \<open>The listing\<close>

lemma mset_order_by [simp]: "mset (order_by_created_at_desc rows) = mset rows"
  by (simp add: order_by_created_at_desc_def)

lemma sorted_order_by:
  "sorted_wrt (\<lambda>a b. row_created_at b \<le> row_created_at a) (order_by_created_at_desc rows)"
proof -
  have "sorted (map (\<lambda>r. - int (row_created_at r)) (order_by_created_at_desc rows))"
    by (simp add: order_by_created_at_desc_def)
  then show ?thesis
    by (simp add: sorted_map)
qed

lemma sorted_summaries:
  assumes "sorted_wrt (\<lambda>a b. row_created_at b \<le> row_created_at a) rows"
  shows "sorted_wrt (\<lambda>a b. sum_created_at b \<le> sum_created_at a) (map summary rows)"
  using assms by (simp add: sorted_wrt_map summary_def)

lemma get_requests_filtered:
  assumes "f \<noteq> []"
  shows "get_requests no_fault (Some f) s =
           (s, Inr (map summary (order_by_created_at_desc
                      (filter (\<lambda>r. row_status r = f) (db_requests s)))))"
  using assms by (simp add: get_requests_def)

lemma get_requests_unfiltered:
  assumes "status = None \<or> status = Some []"
  shows "get_requests no_fault status s =
           (s, Inr (take 50 (map summary (order_by_created_at_desc (db_requests s)))))"
  using assms by (auto simp: get_requests_def take_map)

lemma demo_store2_eval:
  "demo_store2 =
     \<lparr>db_requests =
        [\<lparr>row_request_id = demo_id, row_team_name = ''data-engineering'',
          row_db_type = ''postgres'', row_environment = ''prod'', row_size = ''large'',
          row_purpose = ''Analytics warehouse'', row_status = ''provisioned'',
          row_created_at = 1, row_approved_at = Some 2, row_provisioned_at = Some 2,
          row_approver = Some ''john.doe@company.com'',
          row_approval_notes = Some ''Approved - meets requirements''\<rparr>,
         \<lparr>row_request_id = ''9b2d6f3c-1a4e-4b7d-8c5f-7e6d5c4b3a29'',
          row_team_name = ''backend-team'', row_db_type = ''mysql'',
          row_environment = ''dev'', row_size = ''small'',
          row_purpose = ''Development testing'', row_status = ''pending'',
          row_created_at = 5, row_approved_at = None, row_provisioned_at = None,
          row_approver = None, row_approval_notes = None\<rparr>],
      provisioned_databases =
        [\<lparr>pd_db_id = 1, pd_request_id = demo_id,
          pd_db_name = ''data-engineering_prod_postgres_2f1c9e4a'', pd_db_type = ''postgres'',
          pd_environment = ''prod'', pd_host = ''db-cluster.example.com'', pd_port = 5432,
          pd_estimated_cost = 500, pd_status = ''active'', pd_created_at = 2\<rparr>],
      db_id_seq = 1\<rparr>"
  by code_simp

subsection \<open>Calls in turn\<close>

lemma call_alone:
  "interleave flt [(clk, u, a)] [0, 0, 0, 0, 0] ([At_select_status], s) =
     ([Returned (snd (process_approval flt clk u a s))], fst (process_approval flt clk u a s))"
  by (auto simp: process_approval_def provision_database_def Let_def
        split: option.splits)






lemma decide_in_turn_Cons:
  "decide_in_turn ((clk, u, a) # calls) s =
     (snd (process_approval no_fault clk u a s) #
        fst (decide_in_turn calls (fst (process_approval no_fault clk u a s))),
      snd (decide_in_turn calls (fst (process_approval no_fault clk u a s))))"
  by (simp split: prod.splits)


lemma length_decide_in_turn [simp]: "length (fst (decide_in_turn calls s)) = length calls"
proof (induction calls arbitrary: s)
  case Nil
  show ?case by simp
next
  case (Cons c calls)
  obtain clk u a where c: "c = (clk, u, a)"
    by (cases c) auto
  show ?case
    unfolding c decide_in_turn_Cons by (simp add: Cons.IH)
qed



subsection \<open>The cost and port derivation\<close>

text \<open>
  Claim C6. The cost and the port are functions of the size and of the database type
  alone: 50, 150 and 500 for small, medium and large and 100 for any other size; 5432,
  3306 and 6379 for postgres, mysql and redis and 5432 for any other type. In particular
  (large, postgres) gives (500, 5432) and (xlarge, mongo) gives (100, 5432). They are the
  values \<^verbatim>\<open>_provision_database\<close> stores in the record it inserts.
\<close>

theorem cost_port_derivation:
  "estimated_cost sz =
     (if sz = ''small'' then 50 else if sz = ''medium'' then 150
      else if sz = ''large'' then 500 else 100) \<and>
   port dbt =
     (if dbt = ''postgres'' then 5432 else if dbt = ''mysql'' then 3306
      else if dbt = ''redis'' then 6379 else 5432) \<and>
   (estimated_cost ''large'', port ''postgres'') = (500, 5432) \<and>
   (estimated_cost ''xlarge'', port ''mongo'') = (100, 5432) \<and>
   (select_details rid s = Some (team, dbt, env, sz) \<longrightarrow>
      map (\<lambda>d. (pd_estimated_cost d, pd_port d))
        (provisioned_databases (fst (provision_database no_fault clk u rid s))) =
      map (\<lambda>d. (pd_estimated_cost d, pd_port d)) (provisioned_databases s) @
        [(estimated_cost sz, port dbt)])"
proof -
  have tables: "estimated_cost sz =
     (if sz = ''small'' then 50 else if sz = ''medium'' then 150
      else if sz = ''large'' then 500 else 100)"
    "port dbt =
     (if dbt = ''postgres'' then 5432 else if dbt = ''mysql'' then 3306
      else if dbt = ''redis'' then 6379 else 5432)" for sz dbt
    by (simp_all add: estimated_cost_def port_def dict_get_def cost_map_def port_map_def)
  have stored: "map (\<lambda>d. (pd_estimated_cost d, pd_port d))
        (provisioned_databases (fst (provision_database no_fault clk u rid s))) =
      map (\<lambda>d. (pd_estimated_cost d, pd_port d)) (provisioned_databases s) @
        [(estimated_cost sz, port dbt)]"
    if "select_details rid s = Some (team, dbt, env, sz)"
    using that
    by (simp add: provision_database_ok update_provisioned_def insert_database_def)
  show ?thesis
    using stored by (simp add: tables)
qed

text \<open>The request of the demo client, large and postgres, is stored with 500 and 5432.\<close>

theorem cost_port_derivation_witness:
  "map (\<lambda>d. (pd_estimated_cost d, pd_port d))
     (provisioned_databases
        (fst (provision_database no_fault (\<lambda>st. 2) demo_uuid demo_id demo_store))) =
   [(500, 5432)]"
proof -
  have h: "select_details demo_id demo_store =
             Some (''data-engineering'', ''postgres'', ''prod'', ''large'')"
    by (simp add: demo_store_eval select_details_def)
  have e: "provisioned_databases demo_store = []"
    by (simp add: demo_store_eval)
  show ?thesis
    using cost_port_derivation [of "''large''" "''postgres''" demo_id demo_store
        "''data-engineering''" "''prod''" "\<lambda>k. 2" demo_uuid] h e
    by simp
qed

subsection \<open>Deciding an unknown request\<close>

text \<open>
  Claim C7. When the identifier of a decision is the identifier of no stored request,
  \<^verbatim>\<open>process_approval\<close> raises the 404 \<^verbatim>\<open>HTTPException\<close> "Request not found", and the
  store after the call is the store before it, whatever the database does.
\<close>

theorem unknown_id_not_found:
  "request_id a \<notin> row_request_id ` set (db_requests s) \<Longrightarrow>
   process_approval no_fault clk u a s = (s, Inl (HTTPException 404 ''Request not found'')) \<and>
   fst (process_approval flt clk u a s) = s"
  by (simp add: process_approval_def select_status_None_iff [symmetric])

text \<open>The approval of the demo client, sent to the empty store.\<close>

theorem unknown_id_not_found_witness:
  "process_approval no_fault (\<lambda>st. 2) demo_uuid demo_approve empty_store =
     (empty_store, Inl (HTTPException 404 ''Request not found''))"
proof -
  have h: "request_id demo_approve \<notin> row_request_id ` set (db_requests empty_store)"
    by (simp add: empty_store_def)
  show ?thesis
    using unknown_id_not_found [OF h] by simp
qed

subsection \<open>Deciding with an action other than approve\<close>



subsection \<open>Approving a pending request\<close>

text \<open>
  Claim C1, as the code has it. An approval of a pending request, when no statement
  raises, leaves the request stored with status \<^verbatim>\<open>provisioned\<close>. The dictionary
  returned to the caller is built from \<^verbatim>\<open>new_status\<close>, which was computed before
  provisioning: its status field is \<^verbatim>\<open>approved\<close> and its message
  "Request approved successfully".
\<close>

theorem approve_stores_provisioned:
  assumes "select_status (request_id a) s = Some ''pending''" and "action a = ''approve''"
  shows "snd (process_approval no_fault clk u a s) =
           Inr \<lparr>res_request_id = request_id a, res_status = ''approved'',
                res_message = ''Request approved successfully''\<rparr> \<and>
         select_status (request_id a) (fst (process_approval no_fault clk u a s)) =
           Some ''provisioned'' \<and>
         (\<forall>r \<in> set (db_requests (fst (process_approval no_fault clk u a s))).
            row_request_id r = request_id a \<longrightarrow> row_status r = ''provisioned'')"
proof -
  from assms(1) obtain team dbt env sz
    where d: "select_details (request_id a) s = Some (team, dbt, env, sz)"
    by (rule select_details_of_status)
  note run = process_approval_approve [OF assms d, of clk u]
  have res: "snd (process_approval no_fault clk u a s) =
           Inr \<lparr>res_request_id = request_id a, res_status = ''approved'',
                res_message = ''Request approved successfully''\<rparr>"
    by (simp add: run)
  have rows: "row_status r = ''provisioned''"
    if "r \<in> set (db_requests (fst (process_approval no_fault clk u a s)))"
      and "row_request_id r = request_id a" for r
    using that rows_update_provisioned [of r] by (simp add: run)
  from res approve_status [OF assms, of clk u] rows show ?thesis
    by blast
qed

text \<open>The approval of the demo client on its pending request.\<close>

theorem approve_stores_provisioned_witness:
  "snd (process_approval no_fault (\<lambda>st. 2) demo_uuid demo_approve demo_store) =
     Inr \<lparr>res_request_id = demo_id, res_status = ''approved'',
          res_message = ''Request approved successfully''\<rparr> \<and>
   select_status demo_id
     (fst (process_approval no_fault (\<lambda>st. 2) demo_uuid demo_approve demo_store)) =
     Some ''provisioned''"
proof -
  have i: "request_id demo_approve = demo_id" and a: "action demo_approve = ''approve''"
    by (simp_all add: demo_approve_def)
  have p: "select_status (request_id demo_approve) demo_store = Some ''pending''"
    by (simp only: i demo_pending)
  from approve_stores_provisioned [OF p a] show ?thesis
    by (simp add: i)
qed

text \<open>
  Claim C1 as stated, that the status field of the returned value is
  \<^verbatim>\<open>provisioned\<close>, fails on that same call: the request is pending, the action is
  \<^verbatim>\<open>approve\<close>, the call succeeds and the status it returns is \<^verbatim>\<open>approved\<close>.
\<close>

theorem returned_status_counterexample:
  "select_status (request_id demo_approve) demo_store = Some ''pending'' \<and>
   action demo_approve = ''approve'' \<and>
   (case snd (process_approval no_fault (\<lambda>st. 2) demo_uuid demo_approve demo_store) of
      Inl e \<Rightarrow> False
    | Inr res \<Rightarrow> res_status res = ''approved'' \<and> res_status res \<noteq> ''provisioned'')"
proof -
  have i: "request_id demo_approve = demo_id" and a: "action demo_approve = ''approve''"
    by (simp_all add: demo_approve_def)
  have p: "select_status (request_id demo_approve) demo_store = Some ''pending''"
    by (simp only: i demo_pending)
  have d: "select_details (request_id demo_approve) demo_store =
             Some (''data-engineering'', ''postgres'', ''prod'', ''large'')"
    by (simp only: i demo_details)
  show ?thesis
    by (simp add: process_approval_approve [OF p a d] p a)
qed

subsection \<open>Deciding twice\<close>

text \<open>
  Claim C4. Once a decision on a request has succeeded, under whatever action, a second
  decision on the same identifier raises the 400 \<^verbatim>\<open>HTTPException\<close> whose detail is
  "Request already" followed by the status the first call stored, \<^verbatim>\<open>provisioned\<close>
  after an approval and \<^verbatim>\<open>rejected\<close> otherwise, and it leaves the store as it was.
\<close>

theorem second_decide_fails:
  assumes "process_approval flt clk u a s = (s1, Inr res)"
    and "request_id a2 = request_id a"
  shows "process_approval no_fault clk2 u2 a2 s1 =
           (s1, Inl (HTTPException 400
                  (''Request already '' @
                   (if action a = ''approve'' then ''provisioned'' else ''rejected''))))"
proof -
  from process_approval_success [OF assms(1)] assms(2)
  have "select_status (request_id a2) s1 =
          Some (if action a = ''approve'' then ''provisioned'' else ''rejected'')"
    by simp
  then show ?thesis
    by (rule process_approval_not_pending) simp
qed

text \<open>The demo request approved and then rejected, and rejected and then approved.\<close>

theorem second_decide_fails_witness:
  "process_approval no_fault (\<lambda>st. 3) demo_uuid demo_reject
     (fst (process_approval no_fault (\<lambda>st. 2) demo_uuid demo_approve demo_store)) =
     (fst (process_approval no_fault (\<lambda>st. 2) demo_uuid demo_approve demo_store),
      Inl (HTTPException 400 ''Request already provisioned'')) \<and>
   process_approval no_fault (\<lambda>st. 3) demo_uuid demo_approve
     (fst (process_approval no_fault (\<lambda>st. 2) demo_uuid demo_reject demo_store)) =
     (fst (process_approval no_fault (\<lambda>st. 2) demo_uuid demo_reject demo_store),
      Inl (HTTPException 400 ''Request already rejected''))"
proof -
  have pa: "select_status (request_id demo_approve) demo_store = Some ''pending''"
    and pr: "select_status (request_id demo_reject) demo_store = Some ''pending''"
    by (simp_all only: demo_ids demo_pending)
  have d: "select_details (request_id demo_approve) demo_store =
             Some (''data-engineering'', ''postgres'', ''prod'', ''large'')"
    by (simp only: demo_ids demo_details)
  have first_approve:
    "process_approval no_fault (\<lambda>st. 2) demo_uuid demo_approve demo_store =
       (fst (process_approval no_fault (\<lambda>st. 2) demo_uuid demo_approve demo_store),
        Inr \<lparr>res_request_id = request_id demo_approve, res_status = ''approved'',
             res_message = ''Request approved successfully''\<rparr>)"
    by (simp add: process_approval_approve [OF pa demo_ids(2) d])
  have first_reject:
    "process_approval no_fault (\<lambda>st. 2) demo_uuid demo_reject demo_store =
       (fst (process_approval no_fault (\<lambda>st. 2) demo_uuid demo_reject demo_store),
        Inr \<lparr>res_request_id = request_id demo_reject, res_status = ''rejected'',
             res_message = ''Request rejected successfully''\<rparr>)"
    by (simp add: process_approval_reject [OF pr] demo_ids)
  have same: "request_id demo_reject = request_id demo_approve"
    "request_id demo_approve = request_id demo_reject"
    by (simp_all add: demo_ids)
  from second_decide_fails [OF first_approve same(1), of "\<lambda>st. 3" demo_uuid]
    second_decide_fails [OF first_reject same(2), of "\<lambda>st. 3" demo_uuid]
  show ?thesis
    by (simp add: demo_ids)
qed

subsection \<open>The records a decision creates\<close>



subsection \<open>The invariant of a request\<close>



subsection \<open>The two writes of provisioning\<close>




subsection \<open>Listing the requests\<close>

text \<open>
  Claim C9, as the code has it. The test on the filter is \<^verbatim>\<open>if status:\<close>. With a filter
  that is not the empty string, \<^verbatim>\<open>get_requests\<close> returns exactly the requests whose
  status is the filter, all of them, latest creation first. With no filter, and also
  with the empty string as filter, it returns the first 50 of all requests ordered latest
  creation first. The store is returned as it was.
\<close>

theorem list_requests:
  "(f \<noteq> [] \<longrightarrow>
      (\<exists>rows. get_requests no_fault (Some f) s = (s, Inr rows) \<and>
         mset rows = mset (map summary (filter (\<lambda>r. row_status r = f) (db_requests s))) \<and>
         sorted_wrt (\<lambda>a b. sum_created_at b \<le> sum_created_at a) rows)) \<and>
   (\<exists>ordered.
      get_requests no_fault None s = (s, Inr (take 50 ordered)) \<and>
      get_requests no_fault (Some []) s = (s, Inr (take 50 ordered)) \<and>
      mset ordered = mset (map summary (db_requests s)) \<and>
      sorted_wrt (\<lambda>a b. sum_created_at b \<le> sum_created_at a) ordered)"
proof (intro conjI impI)
  assume f: "f \<noteq> []"
  let ?rows = "map summary (order_by_created_at_desc
                 (filter (\<lambda>r. row_status r = f) (db_requests s)))"
  have "get_requests no_fault (Some f) s = (s, Inr ?rows)"
    by (rule get_requests_filtered [OF f])
  moreover have "mset ?rows =
      mset (map summary (filter (\<lambda>r. row_status r = f) (db_requests s)))"
    by simp
  moreover have "sorted_wrt (\<lambda>a b. sum_created_at b \<le> sum_created_at a) ?rows"
    by (intro sorted_summaries sorted_order_by)
  ultimately show "\<exists>rows. get_requests no_fault (Some f) s = (s, Inr rows) \<and>
         mset rows = mset (map summary (filter (\<lambda>r. row_status r = f) (db_requests s))) \<and>
         sorted_wrt (\<lambda>a b. sum_created_at b \<le> sum_created_at a) rows"
    by blast
next
  let ?all = "map summary (order_by_created_at_desc (db_requests s))"
  have "get_requests no_fault None s = (s, Inr (take 50 ?all))"
    "get_requests no_fault (Some []) s = (s, Inr (take 50 ?all))"
    by (simp_all add: get_requests_unfiltered)
  moreover have "mset ?all = mset (map summary (db_requests s))"
    by simp
  moreover have "sorted_wrt (\<lambda>a b. sum_created_at b \<le> sum_created_at a) ?all"
    by (intro sorted_summaries sorted_order_by)
  ultimately show "\<exists>ordered.
      get_requests no_fault None s = (s, Inr (take 50 ordered)) \<and>
      get_requests no_fault (Some []) s = (s, Inr (take 50 ordered)) \<and>
      mset ordered = mset (map summary (db_requests s)) \<and>
      sorted_wrt (\<lambda>a b. sum_created_at b \<le> sum_created_at a) ordered"
    by blast
qed

text \<open>The filter \<^verbatim>\<open>pending\<close> on the demo store with its two requests.\<close>

theorem list_requests_witness:
  "get_requests no_fault (Some ''pending'') demo_store2 =
     (demo_store2,
      Inr [\<lparr>sum_request_id = ''9b2d6f3c-1a4e-4b7d-8c5f-7e6d5c4b3a29'',
            sum_team_name = ''backend-team'', sum_db_type = ''mysql'',
            sum_environment = ''dev'', sum_size = ''small'', sum_status = ''pending'',
            sum_created_at = 5, sum_purpose = ''Development testing''\<rparr>])"
proof -
  have "map summary (filter (\<lambda>r. row_status r = ''pending'') (db_requests demo_store2)) =
          [\<lparr>sum_request_id = ''9b2d6f3c-1a4e-4b7d-8c5f-7e6d5c4b3a29'',
            sum_team_name = ''backend-team'', sum_db_type = ''mysql'',
            sum_environment = ''dev'', sum_size = ''small'', sum_status = ''pending'',
            sum_created_at = 5, sum_purpose = ''Development testing''\<rparr>]"
    by (simp add: demo_store2_eval summary_def)
  with list_requests [of "''pending''" demo_store2] show ?thesis
    by auto
qed

text \<open>
  Claim C9 as stated, that a status filter returns exactly the requests whose status
  equals it, fails for the filter \<^verbatim>\<open>''\<close>, which \<^verbatim>\<open>GET /requests?status=\<close> passes: no
  request of the demo store has the empty status, and both requests are returned.
\<close>

theorem empty_filter_counterexample:
  "snd (get_requests no_fault (Some '''') demo_store2) =
     Inr [\<lparr>sum_request_id = ''9b2d6f3c-1a4e-4b7d-8c5f-7e6d5c4b3a29'',
           sum_team_name = ''backend-team'', sum_db_type = ''mysql'',
           sum_environment = ''dev'', sum_size = ''small'', sum_status = ''pending'',
           sum_created_at = 5, sum_purpose = ''Development testing''\<rparr>,
          \<lparr>sum_request_id = demo_id, sum_team_name = ''data-engineering'',
           sum_db_type = ''postgres'', sum_environment = ''prod'', sum_size = ''large'',
           sum_status = ''provisioned'', sum_created_at = 1,
           sum_purpose = ''Analytics warehouse''\<rparr>] \<and>
   filter (\<lambda>r. row_status r = '''') (db_requests demo_store2) = []"
  by (simp add: get_requests_def demo_store2_eval order_by_created_at_desc_def summary_def)

subsection \<open>Decisions on the same request\<close>




end
